theory Spec2Isabelle
  imports Main "HOL-Library.AList" "HOL-Library.Sublist"
begin

section \<open>Python values and helpers used by the two scripts\<close>

text \<open>
  The scripts are Python 2 (\<^verbatim>\<open>print 'Could not determine read index: %s' % read\<close>).
  Every exception that can leave one of the modelled functions is a constructor of
  \<open>error\<close>; \<open>SystemExit\<close> is \<^verbatim>\<open>sys.exit()\<close>, which the code calls after
  \<^verbatim>\<open>logger.error\<close> for the fatal configuration and format failures.
\<close>

datatype error = SystemExit | TypeError | IndexError | AttributeError | UnboundLocalError

text \<open>A local variable of a Python function: assigned on some paths only.\<close>

datatype 'a binding = Unbound | Bound 'a

text \<open>\<^verbatim>\<open>s.split(sep)\<close> for a one-character separator: never the empty list.\<close>

primrec split_acc :: "char \<Rightarrow> string \<Rightarrow> string \<Rightarrow> string list" where
  "split_acc sep cur [] = [cur]"
| "split_acc sep cur (c # cs) =
     (if c = sep then cur # split_acc sep [] cs else split_acc sep (cur @ [c]) cs)"

definition split :: "char \<Rightarrow> string \<Rightarrow> string list" where
  "split sep s = split_acc sep [] s"

text \<open>\<^verbatim>\<open>s.split()\<close>: the maximal runs of non-whitespace characters.\<close>

definition isspace :: "char \<Rightarrow> bool" where
  "isspace c = (c \<in> set [CHR 0x20, CHR 0x09, CHR 0x0A, CHR 0x0D, CHR 0x0B, CHR 0x0C])"

primrec split_ws_acc :: "string \<Rightarrow> string \<Rightarrow> string list" where
  "split_ws_acc cur [] = (if cur = [] then [] else [cur])"
| "split_ws_acc cur (c # cs) =
     (if isspace c then (if cur = [] then split_ws_acc [] cs else cur # split_ws_acc [] cs)
      else split_ws_acc (cur @ [c]) cs)"

definition split_ws :: "string \<Rightarrow> string list" where
  "split_ws s = split_ws_acc [] s"

text \<open>\<^verbatim>\<open>s.upper()\<close> on a byte string: the ASCII letters a-z only.\<close>

definition upper_char :: "char \<Rightarrow> char" where
  "upper_char c =
     (if 97 \<le> (of_char c :: nat) \<and> (of_char c :: nat) \<le> 122
      then char_of ((of_char c :: nat) - 32) else c)"

definition upper :: "string \<Rightarrow> string" where
  "upper s = map upper_char s"

text \<open>\<^verbatim>\<open>sep.join(xs)\<close>.\<close>

fun join :: "string \<Rightarrow> string list \<Rightarrow> string" where
  "join sep [] = []"
| "join sep [x] = x"
| "join sep (x # y # ys) = x @ sep @ join sep (y # ys)"

text \<open>Decimal rendering of an integer, as \<^verbatim>\<open>'{}'.format(n)\<close> and \<^verbatim>\<open>'%d' % n\<close> give it.\<close>

definition digit_char :: "nat \<Rightarrow> char" where
  "digit_char d = char_of (48 + d)"

fun str_nat :: "nat \<Rightarrow> string" where
  "str_nat n = (if n < 10 then [digit_char n] else str_nat (n div 10) @ [digit_char (n mod 10)])"

declare str_nat.simps [simp del]

definition str_int :: "int \<Rightarrow> string" where
  "str_int i = (if i < 0 then CHR ''-'' # str_nat (nat (- i)) else str_nat (nat i))"

section \<open>Flowcell identifiers\<close>

text \<open>
  \<^verbatim>\<open>truncate_flowcell_id\<close> (the same text in both scripts):
  \<^verbatim>\<open>
    elements = flowcell_id.split('-')
    if len(elements) == 2:
        trunc_flowcell_id = elements[1][:5]
    elif len(elements) == 1:
        trunc_flowcell_id = elements[0][:5]
    return trunc_flowcell_id
  \<close>
  With three segments or more neither branch assigns the local, and the
  \<^verbatim>\<open>return\<close> raises \<^verbatim>\<open>UnboundLocalError\<close>.
\<close>

definition truncate_flowcell_id :: "string \<Rightarrow> error + string" where
  "truncate_flowcell_id flowcell_id =
     (let elements = split CHR ''-'' flowcell_id;
          trunc_flowcell_id =
            (if length elements = 2 then Bound (take 5 (elements ! 1))
             else if length elements = 1 then Bound (take 5 (elements ! 0))
             else Unbound)
      in case trunc_flowcell_id of Unbound \<Rightarrow> Inl UnboundLocalError | Bound t \<Rightarrow> Inr t)"

section \<open>Sample sheet\<close>

text \<open>
  \<^verbatim>\<open>Bcl2fastqJob.create_sample_sheet\<close> (the loop is the same text in both scripts).
  The state of the loop is the sheet file (the strings given to \<^verbatim>\<open>SHEET.write\<close>, in
  order), the dictionary \<^verbatim>\<open>barcode_sample_dict\<close>, the two locals \<^verbatim>\<open>i5\<close> and
  \<^verbatim>\<open>sample_id\<close>, which keep their value from one line to the next, and the messages
  given to \<^verbatim>\<open>logger.error\<close>. The dictionary is an association list in insertion
  order; the order in which Python 2 enumerates the keys is not modelled.
\<close>

record sheet_state =
  written :: "string list"
  barcode_sample_dict :: "(string \<times> string option) list"
  var_i5 :: "string option binding"
  var_sample_id :: "string binding"
  logged :: "string list"

definition nl :: string where
  "nl = [CHR 0x0A]"

text \<open>Truth value of \<^verbatim>\<open>i5\<close> in \<^verbatim>\<open>if i5:\<close>: \<^verbatim>\<open>None\<close> and the empty string are false.\<close>

fun truthy :: "string option \<Rightarrow> bool" where
  "truthy None = False"
| "truthy (Some s) = (s \<noteq> [])"

text \<open>
  One iteration of \<^verbatim>\<open>for line in CODES\<close>:
  \<^verbatim>\<open>
    elements = line.split()
    barcode = elements[0].upper()
    indexes = barcode.split('-')
    i7 = indexes[0]
    if len(indexes) == 2:
        i5 = indexes[1]
    elif len(indexes) > 2:
        logger.error('Length of indexes is greater than 2')
        logger.error(indexes)
    else:
        i5 = None
    if len(elements) == 2:
        sample_id = elements[1]
        barcode_sample_dict[barcode] = sample_id
    elif len(elements) == 1:
        sample_id = barcode
        barcode_sample_dict[barcode] = None
    if i5:
        SHEET.write('{},{},{},{}\n'.format(self.lane_index, sample_id, i7, i5))
    else:
        SHEET.write('{},{},{},,\n'.format(self.lane_index, sample_id, i7))
  \<close>
\<close>

definition sample_sheet_line :: "int \<Rightarrow> sheet_state \<Rightarrow> string \<Rightarrow> error + sheet_state" where
  "sample_sheet_line lane_index st line =
     (let elements = split_ws line in
      if elements = [] then Inl IndexError
      else
        let barcode = upper (elements ! 0);
            indexes = split CHR ''-'' barcode;
            i7 = indexes ! 0;
            st1 = (if length indexes = 2 then st\<lparr>var_i5 := Bound (Some (indexes ! 1))\<rparr>
                   else if length indexes > 2
                   then st\<lparr>logged := logged st @
                          [''Length of indexes is greater than 2'', join '', '' indexes]\<rparr>
                   else st\<lparr>var_i5 := Bound None\<rparr>);
            st2 = (if length elements = 2
                   then st1\<lparr>var_sample_id := Bound (elements ! 1),
                           barcode_sample_dict :=
                             AList.update barcode (Some (elements ! 1)) (barcode_sample_dict st1)\<rparr>
                   else if length elements = 1
                   then st1\<lparr>var_sample_id := Bound barcode,
                           barcode_sample_dict :=
                             AList.update barcode None (barcode_sample_dict st1)\<rparr>
                   else st1)
        in case var_i5 st2 of
             Unbound \<Rightarrow> Inl UnboundLocalError
           | Bound i5 \<Rightarrow>
               (case var_sample_id st2 of
                  Unbound \<Rightarrow> Inl UnboundLocalError
                | Bound sample_id \<Rightarrow>
                    (if truthy i5
                     then Inr (st2\<lparr>written := written st2 @
                            [str_int lane_index @ '','' @ sample_id @ '','' @ i7 @ '','' @
                             the i5 @ nl]\<rparr>)
                     else Inr (st2\<lparr>written := written st2 @
                            [str_int lane_index @ '','' @ sample_id @ '','' @ i7 @ '',,'' @
                             nl]\<rparr>))))"

fun sample_sheet_lines :: "int \<Rightarrow> sheet_state \<Rightarrow> string list \<Rightarrow> error + sheet_state" where
  "sample_sheet_lines lane_index st [] = Inr st"
| "sample_sheet_lines lane_index st (line # lines) =
     (case sample_sheet_line lane_index st line of
        Inl e \<Rightarrow> Inl e
      | Inr st' \<Rightarrow> sample_sheet_lines lane_index st' lines)"

text \<open>
  The whole method, on the lines of the barcodes file. It returns the name of the sheet
  and the dictionary; the final state also holds what was written to the sheet.
\<close>

definition create_sample_sheet ::
  "string \<Rightarrow> int \<Rightarrow> string list \<Rightarrow> error + (string \<times> sheet_state)" where
  "create_sample_sheet run_name lane_index CODES =
     (let sample_sheet = run_name @ ''-L'' @ str_int lane_index @ ''-samplesheet.csv'';
          st0 = \<lparr>written = [''[Data]'' @ nl, ''Lane,Sample_ID,index,index2'' @ nl],
                 barcode_sample_dict = [],
                 var_i5 = Unbound,
                 var_sample_id = Unbound,
                 logged = []\<rparr>
      in case sample_sheet_lines lane_index st0 CODES of
           Inl e \<Rightarrow> Inl e
         | Inr st \<Rightarrow> Inr (sample_sheet, st))"

text \<open>The comma-separated fields of a written line, without its newline.\<close>

definition csv_fields :: "string \<Rightarrow> string list" where
  "csv_fields row = split CHR '','' (filter (\<lambda>c. c \<noteq> CHR 0x0A) row)"

section \<open>Index lengths\<close>

text \<open>
  \<^verbatim>\<open>GetUseBasesMaskJob._count_index_lengths\<close> (\<^verbatim>\<open>count_index_lengths\<close> in
  \<^verbatim>\<open>bcl2fastq2_by_lane\<close>):
  \<^verbatim>\<open>
    try:
        barcode = barcodes.pop()
    except:
        return index_lengths
    elements = barcode.split('-')
    i7_length = len(elements[0])
    if len(elements) == 2:
        i5_length = len(elements[1])
    elif len(elements) > 2:
        logger.error('Barcode has more than two indexes: {}').format(barcode)
        sys.exit()
    else:
        i5_length = 0
    index_lengths.append((i7_length, i5_length))
    return self._count_index_lengths(barcodes, index_lengths)
  \<close>
  \<^verbatim>\<open>barcodes.pop()\<close> removes the last element of the caller's list, so the list is part
  of the result: the function returns its value or error together with the list as it
  leaves it. In the third branch \<^verbatim>\<open>logger.error(...)\<close> returns \<^verbatim>\<open>None\<close>, and
  \<^verbatim>\<open>.format\<close> on it raises \<^verbatim>\<open>AttributeError\<close> before \<^verbatim>\<open>sys.exit()\<close> is reached.
  The interpreter's recursion limit is not modelled.
\<close>

function count_index_lengths ::
  "string list \<Rightarrow> (nat \<times> nat) list \<Rightarrow> (error + (nat \<times> nat) list) \<times> string list" where
  "count_index_lengths barcodes index_lengths =
     (if barcodes = [] then (Inr index_lengths, barcodes)
      else
        let barcode = last barcodes;
            barcodes' = butlast barcodes;
            elements = split CHR ''-'' barcode;
            i7_length = length (elements ! 0)
        in if length elements = 2
           then count_index_lengths barcodes' (index_lengths @ [(i7_length, length (elements ! 1))])
           else if length elements > 2 then (Inl AttributeError, barcodes')
           else count_index_lengths barcodes' (index_lengths @ [(i7_length, 0)]))"
  by pat_completeness auto
termination
  by (relation "measure (\<lambda>(barcodes, index_lengths). length barcodes)") auto

declare count_index_lengths.simps [simp del]

text \<open>The pair of lengths the function appends for one barcode of at most two segments.\<close>

definition barcode_lengths :: "string \<Rightarrow> nat \<times> nat" where
  "barcode_lengths barcode =
     (let elements = split CHR ''-'' barcode
      in (length (elements ! 0), if length elements = 2 then length (elements ! 1) else 0))"

section \<open>Bases mask\<close>

text \<open>
  One \<^verbatim>\<open>Read\<close> element of RunInfo.xml, with \<^verbatim>\<open>Number\<close> and \<^verbatim>\<open>NumCycles\<close> already
  converted by \<^verbatim>\<open>int\<close>.
\<close>

record read_element =
  Number :: int
  NumCycles :: int
  IsIndexedRead :: string

text \<open>
  The elements of \<^verbatim>\<open>index_lengths_list\<close>. \<^verbatim>\<open>run\<close> passes either the list of pairs that
  \<^verbatim>\<open>_count_index_lengths\<close> returns, or the tuple \<^verbatim>\<open>(0,0)\<close>, whose elements are the
  integers \<^verbatim>\<open>0\<close> and \<^verbatim>\<open>0\<close>.
\<close>

datatype pyval = PyNone | PyInt int | PyTuple nat nat

text \<open>\<^verbatim>\<open>int(index_lengths[k])\<close>: a pair accepts the indices -2..1, an integer none.\<close>

fun subscript :: "pyval \<Rightarrow> int \<Rightarrow> error + int" where
  "subscript (PyTuple a b) k =
     (if k = 0 \<or> k = - 2 then Inr (int a)
      else if k = 1 \<or> k = - 1 then Inr (int b)
      else Inl IndexError)"
| "subscript (PyInt i) k = Inl TypeError"
| "subscript PyNone k = Inl TypeError"

text \<open>
  Lines 405-416 of \<^verbatim>\<open>_get_use_bases_mask\<close>: the distinct elements that are not
  \<^verbatim>\<open>None\<close>; anything but exactly one is fatal.
\<close>

definition unique_index_lengths :: "pyval list \<Rightarrow> error + pyval" where
  "unique_index_lengths index_lengths_list =
     (let unique = remdups (filter (\<lambda>index_length. index_length \<noteq> PyNone) index_lengths_list)
      in if length unique \<noteq> 1 then Inl SystemExit else Inr (unique ! 0))"

text \<open>
  The token of an indexed read in \<^verbatim>\<open>scgpm_bcl2fastq\<close>:
  \<^verbatim>\<open>
    if index_length > 0:
        index_mask = 'I{}'.format(index_length)
    else:
        index_mask = ''
    if read_length - index_length > 0:
        n_mask = 'n{}'.format(read_length - index_length)
    elif read_length - index_length < 0:
        logger.error(...)
        sys.exit()
    else:
        n_mask = ''
    mask_elements[number] = '{}{}'.format(index_mask, n_mask)
  \<close>
\<close>

definition index_token :: "int \<Rightarrow> int \<Rightarrow> error + string" where
  "index_token read_length index_length =
     (let index_mask = (if index_length > 0 then ''I'' @ str_int index_length else [])
      in if read_length - index_length > 0
         then Inr (index_mask @ ''n'' @ str_int (read_length - index_length))
         else if read_length - index_length < 0 then Inl SystemExit
         else Inr (index_mask @ []))"

text \<open>In \<^verbatim>\<open>bcl2fastq2_by_lane\<close> the first statement is \<^verbatim>\<open>index_mask = 'I{}'.format(index_length)\<close>.\<close>

definition by_lane_index_token :: "int \<Rightarrow> int \<Rightarrow> error + string" where
  "by_lane_index_token read_length index_length =
     (let index_mask = ''I'' @ str_int index_length
      in if read_length - index_length > 0
         then Inr (index_mask @ ''n'' @ str_int (read_length - index_length))
         else if read_length - index_length < 0 then Inl SystemExit
         else Inr (index_mask @ []))"

text \<open>
  The body of \<^verbatim>\<open>for read_element in tree.findall(".//Read")\<close>, with the token function
  of the variant as a parameter; \<^verbatim>\<open>mask_elements\<close> is a dictionary keyed by the read
  number. A read that is neither \<^verbatim>\<open>'Y'\<close> nor \<^verbatim>\<open>'N'\<close> adds nothing.
\<close>

definition mask_step ::
  "(int \<Rightarrow> int \<Rightarrow> error + string) \<Rightarrow> pyval \<Rightarrow> (int \<times> string) list \<Rightarrow> read_element
     \<Rightarrow> error + (int \<times> string) list" where
  "mask_step token index_lengths mask_elements r =
     (if IsIndexedRead r = ''Y'' then
        (case subscript index_lengths (Number r - 2) of
           Inl e \<Rightarrow> Inl e
         | Inr index_length \<Rightarrow>
             (case token (NumCycles r) index_length of
                Inl e \<Rightarrow> Inl e
              | Inr token_text \<Rightarrow> Inr (AList.update (Number r) token_text mask_elements)))
      else if IsIndexedRead r = ''N'' then
        Inr (AList.update (Number r) (''y'' @ str_int (NumCycles r)) mask_elements)
      else Inr mask_elements)"

fun mask_loop ::
  "(int \<Rightarrow> int \<Rightarrow> error + string) \<Rightarrow> pyval \<Rightarrow> (int \<times> string) list \<Rightarrow> read_element list
     \<Rightarrow> error + (int \<times> string) list" where
  "mask_loop token index_lengths mask_elements [] = Inr mask_elements"
| "mask_loop token index_lengths mask_elements (r # rs) =
     (case mask_step token index_lengths mask_elements r of
        Inl e \<Rightarrow> Inl e
      | Inr mask_elements' \<Rightarrow> mask_loop token index_lengths mask_elements' rs)"

definition use_bases_mask_with ::
  "(int \<Rightarrow> int \<Rightarrow> error + string) \<Rightarrow> read_element list \<Rightarrow> pyval list \<Rightarrow> error + string" where
  "use_bases_mask_with token run_info index_lengths_list =
     (case unique_index_lengths index_lengths_list of
        Inl e \<Rightarrow> Inl e
      | Inr index_lengths \<Rightarrow>
          (case mask_loop token index_lengths [] run_info of
             Inl e \<Rightarrow> Inl e
           | Inr mask_elements \<Rightarrow> Inr (join '','' (map snd (sort_key fst mask_elements)))))"

text \<open>\<^verbatim>\<open>GetUseBasesMaskJob._get_use_bases_mask\<close> of \<^verbatim>\<open>scgpm_bcl2fastq\<close>.\<close>

definition get_use_bases_mask :: "read_element list \<Rightarrow> pyval list \<Rightarrow> error + string" where
  "get_use_bases_mask run_info index_lengths_list =
     use_bases_mask_with index_token run_info index_lengths_list"

text \<open>\<^verbatim>\<open>GetUseBasesMaskJob.get_use_bases_mask\<close> of \<^verbatim>\<open>bcl2fastq2_by_lane\<close>.\<close>

definition by_lane_get_use_bases_mask :: "read_element list \<Rightarrow> pyval list \<Rightarrow> error + string" where
  "by_lane_get_use_bases_mask run_info index_lengths_list =
     use_bases_mask_with by_lane_index_token run_info index_lengths_list"

text \<open>
  \<^verbatim>\<open>GetUseBasesMaskJob.run\<close>:
  \<^verbatim>\<open>
    if len(barcodes_list) == 0:
        index_lengths = (0,0)
    else:
        index_lengths = self._count_index_lengths(barcodes_list)
    use_bases_mask = self._get_use_bases_mask(run_info_file, index_lengths)
    return use_bases_mask
  \<close>
  \<^verbatim>\<open>_count_index_lengths\<close> is called without its second argument, so it starts from the
  default list; \<^verbatim>\<open>main\<close> calls \<^verbatim>\<open>run\<close> once, and the model is that first call, where
  the default list is empty.
\<close>

definition run :: "string list \<Rightarrow> read_element list \<Rightarrow> error + string" where
  "run barcodes_list run_info =
     (if length barcodes_list = 0 then get_use_bases_mask run_info [PyInt 0, PyInt 0]
      else
        (case fst (count_index_lengths barcodes_list []) of
           Inl e \<Rightarrow> Inl e
         | Inr index_lengths \<Rightarrow>
             get_use_bases_mask run_info (map (\<lambda>(i7, i5). PyTuple i7 i5) index_lengths)))"

section \<open>Output classifier\<close>

text \<open>\<^verbatim>\<open>os.path.basename\<close>: what follows the last slash.\<close>

definition basename :: "string \<Rightarrow> string" where
  "basename p = last (split CHR ''/'' p)"

text \<open>\<^verbatim>\<open>re.match(r'R(\d)', read)\<close>: group 1, when the segment starts with R and a digit.\<close>

definition isdigit :: "char \<Rightarrow> bool" where
  "isdigit c = (48 \<le> (of_char c :: nat) \<and> (of_char c :: nat) \<le> 57)"

fun read_index_match :: "string \<Rightarrow> string option" where
  "read_index_match (r # d # rest) = (if r = CHR ''R'' \<and> isdigit d then Some [d] else None)"
| "read_index_match _ = None"

text \<open>\<^verbatim>\<open>int(read_index)\<close> for the one-digit string of group 1.\<close>

definition int_of_digits :: "string \<Rightarrow> int" where
  "int_of_digits s = foldl (\<lambda>acc c. 10 * acc + (int (of_char c) - 48)) 0 s"

text \<open>
  \<^verbatim>\<open>Bcl2fastqFileUploader._get_scgpm_fastq_name\<close>. The first component of the result is
  what the call reports (\<^verbatim>\<open>logger.error\<close> and \<^verbatim>\<open>print\<close>), the second its value
  \<^verbatim>\<open>(scgpm_name, barcode, read_index)\<close> or the exception that leaves it. When the read
  segment does not match, \<^verbatim>\<open>read_index\<close> is never assigned and \<^verbatim>\<open>int(read_index)\<close>
  raises \<^verbatim>\<open>UnboundLocalError\<close>.
\<close>

definition get_scgpm_fastq_name ::
  "string \<Rightarrow> string \<Rightarrow> string \<Rightarrow> int \<Rightarrow> string list \<times> (error + (string \<times> string \<times> string))" where
  "get_scgpm_fastq_name fastq_path flowcell_id library_name lane_index =
     (let fastq_filename = basename fastq_path;
          elements = split CHR ''_'' fastq_filename
      in if length elements < 5 \<or> length elements > 6
         then ([''Fastq filename has unusual number of elements: '' @ fastq_filename],
               Inl SystemExit)
         else
           let barcode = (if length elements = 6 then elements ! 0 @ ''-'' @ elements ! 1
                          else elements ! 0);
               read = (if length elements = 6 then elements ! 4 else elements ! 3);
               read_index = (case read_index_match read of
                               Some d \<Rightarrow> Bound d
                             | None \<Rightarrow> Unbound);
               reported = (case read_index_match read of
                             Some d \<Rightarrow> []
                           | None \<Rightarrow> [''Could not determine read index: '' @ read])
           in case truncate_flowcell_id flowcell_id of
                Inl e \<Rightarrow> (reported, Inl e)
              | Inr trunc_flowcell_id \<Rightarrow>
                  (case read_index of
                     Unbound \<Rightarrow> (reported, Inl UnboundLocalError)
                   | Bound ri \<Rightarrow>
                       (reported,
                        Inr (''SCGPM_'' @ library_name @ ''_'' @ trunc_flowcell_id @ ''_L'' @
                             str_int lane_index @ ''_'' @ barcode @ ''_R'' @
                             str_int (int_of_digits ri) @ ''.fastq.gz'',
                             barcode, ri))))"

section \<open>Facts about splitting\<close>

lemma split_acc_no_sep: "sep \<notin> set s \<Longrightarrow> split_acc sep cur s = [cur @ s]"
  by (induction s arbitrary: cur) auto

lemma split_acc_at_sep:
  "sep \<notin> set a \<Longrightarrow> split_acc sep cur (a @ sep # b) = (cur @ a) # split_acc sep [] b"
  by (induction a arbitrary: cur) auto

lemma length_split_acc: "length (split_acc sep cur s) = Suc (count_list s sep)"
  by (induction s arbitrary: cur) auto

lemma length_split: "length (split sep s) = Suc (count_list s sep)"
  by (simp add: split_def length_split_acc)

lemma split_no_sep: "sep \<notin> set s \<Longrightarrow> split sep s = [s]"
  by (simp add: split_def split_acc_no_sep)

lemma split_one_sep:
  "sep \<notin> set a \<Longrightarrow> sep \<notin> set b \<Longrightarrow> split sep (a @ sep # b) = [a, b]"
  by (simp add: split_def split_acc_at_sep split_acc_no_sep)

section \<open>Flowcell truncation\<close>

text \<open>
  Claim C9. For a flowcell id without a hyphen the result is its first five characters;
  for an id made of two hyphen-free segments joined by one hyphen it is the first five
  characters of the second segment; for every other number of segments the call raises
  (\<^verbatim>\<open>UnboundLocalError\<close>) and so returns no truncated id at all. The two ids of the
  docstring give \<open>HFNKG\<close> and \<open>AMG8G\<close>.
\<close>

theorem truncate_flowcell_id_by_segments:
  "(CHR ''-'' \<notin> set f \<longrightarrow> truncate_flowcell_id f = Inr (take 5 f)) \<and>
   (\<forall>a b. f = a @ ''-'' @ b \<and> CHR ''-'' \<notin> set a \<and> CHR ''-'' \<notin> set b \<longrightarrow>
      truncate_flowcell_id f = Inr (take 5 b)) \<and>
   (length (split CHR ''-'' f) \<noteq> 1 \<and> length (split CHR ''-'' f) \<noteq> 2 \<longrightarrow>
      truncate_flowcell_id f = Inl UnboundLocalError) \<and>
   truncate_flowcell_id ''HFNKGBBXX'' = Inr ''HFNKG'' \<and>
   truncate_flowcell_id ''000000000-AMG8G'' = Inr ''AMG8G''"
proof (intro conjI allI impI)
  assume "CHR ''-'' \<notin> set f"
  then show "truncate_flowcell_id f = Inr (take 5 f)"
    by (simp add: truncate_flowcell_id_def split_no_sep)
next
  fix a b
  assume "f = a @ ''-'' @ b \<and> CHR ''-'' \<notin> set a \<and> CHR ''-'' \<notin> set b"
  then show "truncate_flowcell_id f = Inr (take 5 b)"
    by (simp add: truncate_flowcell_id_def split_one_sep)
next
  assume "length (split CHR ''-'' f) \<noteq> 1 \<and> length (split CHR ''-'' f) \<noteq> 2"
  then show "truncate_flowcell_id f = Inl UnboundLocalError"
    by (simp add: truncate_flowcell_id_def Let_def)
next
  show "truncate_flowcell_id ''HFNKGBBXX'' = Inr ''HFNKG''" by code_simp
next
  show "truncate_flowcell_id ''000000000-AMG8G'' = Inr ''AMG8G''" by code_simp
qed

theorem truncate_flowcell_id_by_segments_witness:
  "CHR ''-'' \<notin> set ''HFNKGBBXX'' \<and> truncate_flowcell_id ''HFNKGBBXX'' = Inr ''HFNKG'' \<and>
   ''000000000-AMG8G'' = ''000000000'' @ ''-'' @ ''AMG8G'' \<and>
   CHR ''-'' \<notin> set ''000000000'' \<and> CHR ''-'' \<notin> set ''AMG8G'' \<and>
   truncate_flowcell_id ''000000000-AMG8G'' = Inr ''AMG8G'' \<and>
   length (split CHR ''-'' ''A-B-C'') = 3 \<and>
   truncate_flowcell_id ''A-B-C'' = Inl UnboundLocalError"
proof -
  have l: "length (split CHR ''-'' ''A-B-C'') = 3" by code_simp
  have "truncate_flowcell_id ''A-B-C'' = Inl UnboundLocalError"
    using truncate_flowcell_id_by_segments [of "''A-B-C''"] l by simp
  moreover have "truncate_flowcell_id ''HFNKGBBXX'' = Inr ''HFNKG''"
    using truncate_flowcell_id_by_segments [of "''HFNKGBBXX''"] by simp
  moreover have "truncate_flowcell_id ''000000000-AMG8G'' = Inr ''AMG8G''"
    using truncate_flowcell_id_by_segments [of "''000000000-AMG8G''"] by simp
  ultimately show ?thesis using l by simp
qed

section \<open>Output classification\<close>

text \<open>
  Claim C5. The file \<open>TCTCGCGC_TCAGAGCC_S47_L001_R2_001.fastq.gz\<close>, with flowcell
  \<open>HFNKGBBXX\<close>, library \<open>MyLib\<close> and lane 1, is classified without any report: the
  barcode is segment 0 joined to segment 1 by a hyphen, the read index is the digit 2 of
  segment 4 (\<open>R2\<close>), and the standardized name contains the library name, the
  truncated flowcell id, \<open>L1\<close>, the barcode and \<open>R2\<close>.
\<close>

theorem classify_dual_barcode_example:
  "get_scgpm_fastq_name ''TCTCGCGC_TCAGAGCC_S47_L001_R2_001.fastq.gz'' ''HFNKGBBXX'' ''MyLib'' 1 =
     ([], Inr (''SCGPM_MyLib_HFNKG_L1_TCTCGCGC-TCAGAGCC_R2.fastq.gz'',
               ''TCTCGCGC-TCAGAGCC'', ''2'')) \<and>
   split CHR ''_'' ''TCTCGCGC_TCAGAGCC_S47_L001_R2_001.fastq.gz'' ! 4 = ''R2'' \<and>
   int_of_digits ''2'' = 2 \<and>
   sublist ''MyLib'' ''SCGPM_MyLib_HFNKG_L1_TCTCGCGC-TCAGAGCC_R2.fastq.gz'' \<and>
   sublist ''HFNKG'' ''SCGPM_MyLib_HFNKG_L1_TCTCGCGC-TCAGAGCC_R2.fastq.gz'' \<and>
   sublist ''L1'' ''SCGPM_MyLib_HFNKG_L1_TCTCGCGC-TCAGAGCC_R2.fastq.gz'' \<and>
   sublist ''TCTCGCGC-TCAGAGCC'' ''SCGPM_MyLib_HFNKG_L1_TCTCGCGC-TCAGAGCC_R2.fastq.gz'' \<and>
   sublist ''R2'' ''SCGPM_MyLib_HFNKG_L1_TCTCGCGC-TCAGAGCC_R2.fastq.gz''"
  by code_simp

text \<open>
  A file name of five or six segments whose read segment does not start with R and a
  digit never yields a value: the message is printed, and the call then raises.
\<close>

lemma get_scgpm_fastq_name_unmatched_read:
  assumes "length (split CHR ''_'' (basename p)) = 5 \<or> length (split CHR ''_'' (basename p)) = 6"
    and "read_index_match
           (if length (split CHR ''_'' (basename p)) = 6
            then split CHR ''_'' (basename p) ! 4 else split CHR ''_'' (basename p) ! 3) = None"
  shows "\<exists>e. snd (get_scgpm_fastq_name p f l i) = Inl e"
  using assms
  by (cases "truncate_flowcell_id f") (auto simp: get_scgpm_fastq_name_def Let_def)

text \<open>
  Claim C6. The claim is that a read segment that does not match \<open>R<digit>\<close> is only
  reported and classification of the file goes on. The code prints the message and
  nothing else, but \<^verbatim>\<open>read_index\<close> is then unassigned and the next statement,
  \<^verbatim>\<open>int(read_index)\<close>, raises \<^verbatim>\<open>UnboundLocalError\<close>: for
  \<open>TCAGAGCC_S47_L001_X2_001.fastq.gz\<close> the call reports and aborts. A name of four
  segments aborts through \<^verbatim>\<open>sys.exit()\<close>.
\<close>

theorem classify_unmatched_read_segment_aborts:
  "get_scgpm_fastq_name ''TCAGAGCC_S47_L001_X2_001.fastq.gz'' ''HFNKGBBXX'' ''MyLib'' 1 =
     ([''Could not determine read index: X2''], Inl UnboundLocalError) \<and>
   get_scgpm_fastq_name ''TCAGAGCC_S47_L001.fastq.gz'' ''HFNKGBBXX'' ''MyLib'' 1 =
     ([''Fastq filename has unusual number of elements: TCAGAGCC_S47_L001.fastq.gz''],
      Inl SystemExit)"
  by code_simp

section \<open>Sample sheet rows\<close>

text \<open>
  Claim C3. The claim is that every row has the four columns of the header, the i5 field
  being empty when the barcode has no i5. For the barcodes file with the one line
  \<open>ATCG SampleA\<close> and lane 1 the sheet is the two header lines and the row
  \<open>1,SampleA,ATCG,,\<close>: the branch without i5 writes two commas after the i7 index, so
  the row has five fields where the header has four.
\<close>

theorem sample_sheet_row_without_i5:
  "create_sample_sheet ''run'' 1 [''ATCG SampleA''] =
     Inr (''run-L1-samplesheet.csv'',
          \<lparr>written = [''[Data]'' @ nl, ''Lane,Sample_ID,index,index2'' @ nl,
                       ''1,SampleA,ATCG,,'' @ nl],
           barcode_sample_dict = [(''ATCG'', Some ''SampleA'')],
           var_i5 = Bound None,
           var_sample_id = Bound ''SampleA'',
           logged = []\<rparr>) \<and>
   csv_fields (''Lane,Sample_ID,index,index2'' @ nl) =
     [''Lane'', ''Sample_ID'', ''index'', ''index2''] \<and>
   csv_fields (''1,SampleA,ATCG,,'' @ nl) = [''1'', ''SampleA'', ''ATCG'', [], []] \<and>
   length (csv_fields (''1,SampleA,ATCG,,'' @ nl)) = 5"
  by code_simp

text \<open>
  Claim C7. The claim is that a barcode of more than two index segments makes parsing
  fail, with no sample-sheet row and no length entry for it. In
  \<^verbatim>\<open>create_sample_sheet\<close> the branch \<^verbatim>\<open>len(indexes) > 2\<close> logs two errors and goes
  on; \<^verbatim>\<open>i5\<close> keeps the value of the line before. For the lines \<open>AAAA-CCCC S1\<close> and
  \<open>GGGG-TTTT-AAAA S2\<close> the method returns, having written the row \<open>1,S2,GGGG,CCCC\<close>
  and entered the barcode in the dictionary. \<^verbatim>\<open>_count_index_lengths\<close> does fail on
  that barcode, and appends no length for it.
\<close>

theorem sample_sheet_three_segment_barcode:
  "create_sample_sheet ''run'' 1 [''AAAA-CCCC S1'', ''GGGG-TTTT-AAAA S2''] =
     Inr (''run-L1-samplesheet.csv'',
          \<lparr>written = [''[Data]'' @ nl, ''Lane,Sample_ID,index,index2'' @ nl,
                       ''1,S1,AAAA,CCCC'' @ nl, ''1,S2,GGGG,CCCC'' @ nl],
           barcode_sample_dict =
             [(''AAAA-CCCC'', Some ''S1''), (''GGGG-TTTT-AAAA'', Some ''S2'')],
           var_i5 = Bound (Some ''CCCC''),
           var_sample_id = Bound ''S2'',
           logged = [''Length of indexes is greater than 2'', ''GGGG, TTTT, AAAA'']\<rparr>) \<and>
   count_index_lengths [''AAAA-CCCC'', ''GGGG-TTTT-AAAA''] [] = (Inl AttributeError, [''AAAA-CCCC''])"
  by code_simp

section \<open>Index lengths of a barcode list\<close>

lemma count_index_lengths_wellformed:
  "\<forall>b\<in>set barcodes. length (split CHR ''-'' b) \<le> 2 \<Longrightarrow>
   count_index_lengths barcodes acc = (Inr (acc @ map barcode_lengths (rev barcodes)), [])"
proof (induction barcodes arbitrary: acc rule: rev_induct)
  case Nil
  show ?case by (simp add: count_index_lengths.simps)
next
  case (snoc b bs)
  have le: "length (split CHR ''-'' b) \<le> 2" using snoc.prems by simp
  have rest: "\<forall>b\<in>set bs. length (split CHR ''-'' b) \<le> 2" using snoc.prems by simp
  show ?case
  proof (cases "length (split CHR ''-'' b) = 2")
    case True
    then show ?thesis
      using snoc.IH [OF rest]
      by (subst count_index_lengths.simps) (simp add: Let_def barcode_lengths_def)
  next
    case False
    then show ?thesis
      using snoc.IH [OF rest] le
      by (subst count_index_lengths.simps) (simp add: Let_def barcode_lengths_def)
  qed
qed



lemma barcode_lengths_single: "CHR ''-'' \<notin> set b \<Longrightarrow> barcode_lengths b = (length b, 0)"
  by (simp add: barcode_lengths_def split_no_sep)

lemma barcode_lengths_dual:
  "CHR ''-'' \<notin> set a \<Longrightarrow> CHR ''-'' \<notin> set c \<Longrightarrow>
   barcode_lengths (a @ CHR ''-'' # c) = (length a, length c)"
  by (simp add: barcode_lengths_def split_one_sep)




section \<open>The unique index-length pair\<close>

lemma tuples_not_none:
  "filter (\<lambda>x. x \<noteq> PyNone) (map (\<lambda>(i7, i5). PyTuple i7 i5) ls) =
   map (\<lambda>(i7, i5). PyTuple i7 i5) ls"
  by (induction ls) auto

lemma unique_index_lengths_single: "x \<noteq> PyNone \<Longrightarrow> unique_index_lengths [x] = Inr x"
  by (simp add: unique_index_lengths_def)

lemma unique_index_lengths_member:
  assumes "unique_index_lengths xs = Inr x"
  shows "x \<in> set xs"
proof -
  let ?u = "remdups (filter (\<lambda>v. v \<noteq> PyNone) xs)"
  have len: "length ?u = 1" and x: "x = ?u ! 0"
    using assms by (auto simp: unique_index_lengths_def Let_def split: if_splits)
  have "?u ! 0 \<in> set ?u" using len by (intro nth_mem) simp
  then show ?thesis using x by auto
qed

lemma unique_index_lengths_one:
  assumes "set ls = {(i7, i5)}"
  shows "unique_index_lengths (map (\<lambda>(i7, i5). PyTuple i7 i5) ls) = Inr (PyTuple i7 i5)"
proof -
  let ?xs = "map (\<lambda>(i7, i5). PyTuple i7 i5) ls"
  have st: "set ?xs = {PyTuple i7 i5}" using assms by auto
  then have len: "length (remdups ?xs) = 1" by (simp add: length_remdups_card_conv)
  then have "remdups ?xs ! 0 \<in> set (remdups ?xs)" by (intro nth_mem) simp
  then have "remdups ?xs ! 0 = PyTuple i7 i5" using st by simp
  then show ?thesis using len by (simp add: unique_index_lengths_def tuples_not_none)
qed

lemma unique_index_lengths_many:
  assumes "p \<in> set ls" and "q \<in> set ls" and "p \<noteq> q"
  shows "unique_index_lengths (map (\<lambda>(i7, i5). PyTuple i7 i5) ls) = Inl SystemExit"
proof -
  let ?f = "\<lambda>(i7, i5). PyTuple i7 i5"
  let ?xs = "map ?f ls"
  have "?f p \<in> set ?xs" and "?f q \<in> set ?xs" using assms by auto
  moreover have "?f p \<noteq> ?f q" using assms(3) by (cases p; cases q) simp
  ultimately have "card (set ?xs) \<noteq> 1"
    by (metis card_1_singletonE singletonD)
  then have "length (remdups ?xs) \<noteq> 1" by (simp add: length_remdups_card_conv)
  then show ?thesis by (simp add: unique_index_lengths_def tuples_not_none)
qed

text \<open>
  Claim C4. For a non-empty list of barcodes of at most two segments each,
  \<^verbatim>\<open>_count_index_lengths\<close> returns one pair of lengths per barcode (an absent i5 counts
  as 0). When all barcodes have the same pair, the start of \<^verbatim>\<open>_get_use_bases_mask\<close>
  selects exactly that pair and \<^verbatim>\<open>run\<close> derives the mask from it. When two barcodes
  have different pairs, the selection is fatal (\<^verbatim>\<open>sys.exit()\<close> after the error message)
  and so is \<^verbatim>\<open>run\<close>, whatever the run geometry.
\<close>

theorem index_lengths_consistency:
  assumes "barcodes \<noteq> []" and "\<forall>b\<in>set barcodes. length (split CHR ''-'' b) \<le> 2"
  shows "fst (count_index_lengths barcodes []) = Inr (map barcode_lengths (rev barcodes)) \<and>
         ((\<forall>b\<in>set barcodes. barcode_lengths b = (i7, i5)) \<longrightarrow>
            unique_index_lengths
              (map (\<lambda>(i7, i5). PyTuple i7 i5) (map barcode_lengths (rev barcodes)))
              = Inr (PyTuple i7 i5) \<and>
            run barcodes run_info = get_use_bases_mask run_info [PyTuple i7 i5]) \<and>
         ((\<exists>b1\<in>set barcodes. \<exists>b2\<in>set barcodes. barcode_lengths b1 \<noteq> barcode_lengths b2) \<longrightarrow>
            unique_index_lengths
              (map (\<lambda>(i7, i5). PyTuple i7 i5) (map barcode_lengths (rev barcodes)))
              = Inl SystemExit \<and>
            run barcodes run_info = Inl SystemExit)"
proof (intro conjI impI)
  let ?ls = "map barcode_lengths (rev barcodes)"
  let ?f = "\<lambda>(i7, i5). PyTuple i7 i5"
  show c: "fst (count_index_lengths barcodes []) = Inr ?ls"
    using count_index_lengths_wellformed [OF assms(2), of "[]"] by simp
  have r: "run barcodes run_info = get_use_bases_mask run_info (map ?f ?ls)"
    using assms(1) c by (simp add: run_def)
  {
    assume same: "\<forall>b\<in>set barcodes. barcode_lengths b = (i7, i5)"
    have "set ?ls = {(i7, i5)}" using same assms(1) by (cases barcodes) auto
    then show u: "unique_index_lengths (map ?f ?ls) = Inr (PyTuple i7 i5)"
      by (rule unique_index_lengths_one)
    have "unique_index_lengths [PyTuple i7 i5] = Inr (PyTuple i7 i5)"
      by (simp add: unique_index_lengths_def)
    then show "run barcodes run_info = get_use_bases_mask run_info [PyTuple i7 i5]"
      using r u by (simp add: get_use_bases_mask_def use_bases_mask_with_def)
  }
  {
    assume "\<exists>b1\<in>set barcodes. \<exists>b2\<in>set barcodes. barcode_lengths b1 \<noteq> barcode_lengths b2"
    then obtain b1 b2 where "b1 \<in> set barcodes" "b2 \<in> set barcodes"
      "barcode_lengths b1 \<noteq> barcode_lengths b2" by blast
    then have "barcode_lengths b1 \<in> set ?ls" "barcode_lengths b2 \<in> set ?ls" by auto
    then show u: "unique_index_lengths (map ?f ?ls) = Inl SystemExit"
      using \<open>barcode_lengths b1 \<noteq> barcode_lengths b2\<close> by (rule unique_index_lengths_many)
    then show "run barcodes run_info = Inl SystemExit"
      using r by (simp add: get_use_bases_mask_def use_bases_mask_with_def)
  }
qed

theorem index_lengths_consistency_witness:
  "length (split CHR ''-'' ''ACGTACGT'') \<le> 2 \<and> length (split CHR ''-'' ''TTGGCCAA'') \<le> 2 \<and>
   length (split CHR ''-'' ''ACGTAC'') \<le> 2 \<and>
   barcode_lengths ''ACGTACGT'' = (8, 0) \<and> barcode_lengths ''TTGGCCAA'' = (8, 0) \<and>
   barcode_lengths ''ACGTAC'' = (6, 0) \<and>
   unique_index_lengths
     (map (\<lambda>(i7, i5). PyTuple i7 i5) (map barcode_lengths (rev [''ACGTACGT'', ''TTGGCCAA''])))
     = Inr (PyTuple 8 0) \<and>
   run [''ACGTACGT'', ''TTGGCCAA'']
       [\<lparr>Number = 1, NumCycles = 151, IsIndexedRead = ''N''\<rparr>,
        \<lparr>Number = 2, NumCycles = 8, IsIndexedRead = ''Y''\<rparr>,
        \<lparr>Number = 3, NumCycles = 151, IsIndexedRead = ''N''\<rparr>] = Inr ''y151,I8,y151'' \<and>
   run [''ACGTACGT'', ''ACGTAC'']
       [\<lparr>Number = 1, NumCycles = 151, IsIndexedRead = ''N''\<rparr>,
        \<lparr>Number = 2, NumCycles = 8, IsIndexedRead = ''Y''\<rparr>,
        \<lparr>Number = 3, NumCycles = 151, IsIndexedRead = ''N''\<rparr>] = Inl SystemExit"
proof -
  let ?g = "[\<lparr>Number = 1, NumCycles = 151, IsIndexedRead = ''N''\<rparr>,
             \<lparr>Number = 2, NumCycles = 8, IsIndexedRead = ''Y''\<rparr>,
             \<lparr>Number = 3, NumCycles = 151, IsIndexedRead = ''N''\<rparr>]"
  have s1: "length (split CHR ''-'' ''ACGTACGT'') \<le> 2"
    and s2: "length (split CHR ''-'' ''TTGGCCAA'') \<le> 2"
    and s3: "length (split CHR ''-'' ''ACGTAC'') \<le> 2"
    by code_simp+
  have l1: "barcode_lengths ''ACGTACGT'' = (8, 0)"
    and l2: "barcode_lengths ''TTGGCCAA'' = (8, 0)"
    and l3: "barcode_lengths ''ACGTAC'' = (6, 0)"
    by code_simp+
  have m: "get_use_bases_mask ?g [PyTuple 8 0] = Inr ''y151,I8,y151''"
    by code_simp
  have same: "unique_index_lengths
       (map (\<lambda>(i7, i5). PyTuple i7 i5) (map barcode_lengths (rev [''ACGTACGT'', ''TTGGCCAA''])))
       = Inr (PyTuple 8 0) \<and>
     run [''ACGTACGT'', ''TTGGCCAA''] ?g = get_use_bases_mask ?g [PyTuple 8 0]"
    using index_lengths_consistency [of "[''ACGTACGT'', ''TTGGCCAA'']" 8 0 ?g] s1 s2 l1 l2
    by simp
  have ne: "[''ACGTACGT'', ''ACGTAC''] \<noteq> []" by simp
  have wf: "\<forall>b\<in>set [''ACGTACGT'', ''ACGTAC'']. length (split CHR ''-'' b) \<le> 2"
    using s1 s3 by simp
  have ex: "\<exists>b1\<in>set [''ACGTACGT'', ''ACGTAC'']. \<exists>b2\<in>set [''ACGTACGT'', ''ACGTAC''].
              barcode_lengths b1 \<noteq> barcode_lengths b2"
  proof (intro bexI)
    show "barcode_lengths ''ACGTACGT'' \<noteq> barcode_lengths ''ACGTAC''" using l1 l3 by simp
  qed simp_all
  have differ: "run [''ACGTACGT'', ''ACGTAC''] ?g = Inl SystemExit"
    using index_lengths_consistency [OF ne wf, of 8 0 ?g] ex by blast
  show ?thesis using s1 s2 s3 l1 l2 l3 m same differ by simp
qed

section \<open>Bases mask\<close>

lemma mask_step_not_indexed:
  "IsIndexedRead r \<noteq> ''Y'' \<Longrightarrow> \<exists>m'. mask_step token il m r = Inr m'"
  by (simp add: mask_step_def)

lemma mask_step_indexed:
  assumes "IsIndexedRead r = ''Y''" and "subscript il (Number r - 2) = Inr L"
  shows "mask_step token il m r =
           (case token (NumCycles r) L of Inl e \<Rightarrow> Inl e
            | Inr t \<Rightarrow> Inr (AList.update (Number r) t m))"
  using assms by (simp add: mask_step_def)

text \<open>
  With the integer \<^verbatim>\<open>0\<close> as \<^verbatim>\<open>index_lengths\<close>, the first indexed read of the run
  raises \<^verbatim>\<open>TypeError\<close> at \<^verbatim>\<open>index_lengths[number-2]\<close>; the reads before it cannot fail.
\<close>

lemma mask_loop_int_index_lengths:
  "\<exists>r\<in>set reads. IsIndexedRead r = ''Y'' \<Longrightarrow> mask_loop token (PyInt i) m reads = Inl TypeError"
proof (induction reads arbitrary: m)
  case Nil
  then show ?case by simp
next
  case (Cons r rs)
  show ?case
  proof (cases "IsIndexedRead r = ''Y''")
    case True
    then show ?thesis by (simp add: mask_step_def)
  next
    case False
    then obtain m' where s: "mask_step token (PyInt i) m r = Inr m'"
      using mask_step_not_indexed by blast
    have "\<exists>r\<in>set rs. IsIndexedRead r = ''Y''" using Cons.prems False by auto
    then show ?thesis using Cons.IH s by simp
  qed
qed

lemma run_empty_barcodes_any_indexed:
  "\<exists>r\<in>set reads. IsIndexedRead r = ''Y'' \<Longrightarrow> run [] reads = Inl TypeError"
  by (simp add: run_def get_use_bases_mask_def use_bases_mask_with_def unique_index_lengths_def
      mask_loop_int_index_lengths)

text \<open>
  Claim C2. The claim is that with no barcodes the mask is derived for every run geometry,
  with the lengths \<open>(0, 0)\<close>. \<^verbatim>\<open>run\<close> sets \<^verbatim>\<open>index_lengths = (0,0)\<close> and passes
  the tuple where \<^verbatim>\<open>_get_use_bases_mask\<close> expects a list of pairs: its distinct elements
  are the single integer \<^verbatim>\<open>0\<close>, which is then subscripted. For a run with the reads
  1 (151 cycles), 2 (index, 8 cycles) and 3 (151 cycles) the call raises
  \<^verbatim>\<open>TypeError\<close>; without an indexed read it returns.
\<close>

theorem run_empty_barcodes_indexed_read:
  "run [] [\<lparr>Number = 1, NumCycles = 151, IsIndexedRead = ''N''\<rparr>,
           \<lparr>Number = 2, NumCycles = 8, IsIndexedRead = ''Y''\<rparr>,
           \<lparr>Number = 3, NumCycles = 151, IsIndexedRead = ''N''\<rparr>] = Inl TypeError \<and>
   run [] [\<lparr>Number = 1, NumCycles = 151, IsIndexedRead = ''N''\<rparr>] = Inr ''y151''"
  by code_simp

lemma mask_loop_append:
  "mask_loop token il m (xs @ ys) =
     (case mask_loop token il m xs of Inl e \<Rightarrow> Inl e | Inr m' \<Rightarrow> mask_loop token il m' ys)"
  by (induction xs arbitrary: m) (auto split: sum.splits)

lemma mask_step_other_key:
  assumes "mask_step token il m r = Inr m'" and "k \<noteq> Number r"
  shows "map_of m' k = map_of m k"
  using assms
  by (auto simp: mask_step_def update_conv' split: if_splits sum.splits)

lemma mask_loop_other_key:
  assumes "mask_loop token il m rs = Inr m'" and "k \<notin> Number ` set rs"
  shows "map_of m' k = map_of m k"
  using assms
proof (induction rs arbitrary: m)
  case Nil
  then show ?case by simp
next
  case (Cons r rs)
  from Cons.prems(1) obtain m1 where s: "mask_step token il m r = Inr m1"
    and l: "mask_loop token il m1 rs = Inr m'"
    by (auto split: sum.splits)
  have "map_of m' k = map_of m1 k" using Cons.IH [OF l] Cons.prems(2) by simp
  moreover have "map_of m1 k = map_of m k"
    using mask_step_other_key [OF s] Cons.prems(2) by simp
  ultimately show ?case by simp
qed

lemma subscript_not_none: "subscript il k = Inr L \<Longrightarrow> il \<noteq> PyNone"
  by (cases il) auto

lemma subscript_nonneg: "subscript il k = Inr L \<Longrightarrow> 0 \<le> L"
  by (cases il) (auto split: if_splits)

lemma index_token_cases:
  "index_token C L =
     (if C < L then Inl SystemExit
      else Inr ((if 0 < L then ''I'' @ str_int L else []) @
                (if L < C then ''n'' @ str_int (C - L) else [])))"
  by (simp add: index_token_def)

lemma single_indexed_read_any:
  assumes "IsIndexedRead r = ''Y''" and "subscript il (Number r - 2) = Inr L"
  shows "get_use_bases_mask [r] [il] = index_token (NumCycles r) L"
  using assms subscript_not_none [OF assms(2)]
  by (cases "index_token (NumCycles r) L")
     (simp_all add: get_use_bases_mask_def use_bases_mask_with_def unique_index_lengths_single
        mask_step_indexed)

lemma indexed_read_in_run:
  assumes y: "IsIndexedRead r = ''Y''" and sub: "subscript il (Number r - 2) = Inr L"
    and u: "unique_index_lengths ill = Inr il"
    and res: "get_use_bases_mask (pre @ r # post) ill = Inr mask_text"
    and later: "Number r \<notin> Number ` set post"
  shows "\<exists>me. mask_loop index_token il [] (pre @ r # post) = Inr me \<and>
              mask_text = join '','' (map snd (sort_key fst me)) \<and>
              map_of me (Number r) =
                Some ((if 0 < L then ''I'' @ str_int L else []) @
                      (if L < NumCycles r then ''n'' @ str_int (NumCycles r - L) else []))"
proof -
  from res u obtain me where loop: "mask_loop index_token il [] (pre @ r # post) = Inr me"
    and joined: "mask_text = join '','' (map snd (sort_key fst me))"
    by (auto simp: get_use_bases_mask_def use_bases_mask_with_def split: sum.splits)
  from loop obtain m1 where p: "mask_loop index_token il [] pre = Inr m1"
    and rest: "mask_loop index_token il m1 (r # post) = Inr me"
    by (auto simp: mask_loop_append split: sum.splits)
  from rest obtain m2 where s: "mask_step index_token il m1 r = Inr m2"
    and l: "mask_loop index_token il m2 post = Inr me"
    by (auto split: sum.splits)
  let ?t = "(if 0 < L then ''I'' @ str_int L else []) @
            (if L < NumCycles r then ''n'' @ str_int (NumCycles r - L) else [])"
  have "m2 = AList.update (Number r) ?t m1"
    using s by (simp add: mask_step_indexed [OF y sub] index_token_cases split: if_splits)
  then have "map_of m2 (Number r) = Some ?t" by (simp add: update_conv')
  moreover have "map_of me (Number r) = map_of m2 (Number r)"
    using mask_loop_other_key [OF l later] .
  ultimately show ?thesis using loop joined by simp
qed

lemma short_indexed_read_in_run:
  assumes y: "IsIndexedRead r = ''Y''" and sub: "subscript il (Number r - 2) = Inr L"
    and u: "unique_index_lengths ill = Inr il"
    and short: "NumCycles r < L"
  shows "(\<exists>e. get_use_bases_mask (pre @ r # post) ill = Inl e) \<and>
         (\<forall>m. mask_loop index_token il [] pre = Inr m \<longrightarrow>
              get_use_bases_mask (pre @ r # post) ill = Inl SystemExit)"
proof -
  have s: "\<And>m. mask_step index_token il m r = Inl SystemExit"
    using short by (simp add: mask_step_indexed [OF y sub] index_token_cases)
  show ?thesis
    using u s
    by (cases "mask_loop index_token il [] pre")
       (simp_all add: get_use_bases_mask_def use_bases_mask_with_def mask_loop_append)
qed

text \<open>
  Claim C1. The claim gives the token \<open>I<L>\<close> or \<open>I<L>n<C-L>\<close> for every assigned
  index length L. For L = 0 the code leaves the index part out: read 3 of 8 cycles with
  the pair \<open>(8, 0)\<close> gets the token \<open>n8\<close>, not \<open>I0n8\<close>.
\<close>

theorem index_token_zero_length_counterexample:
  "get_use_bases_mask [\<lparr>Number = 3, NumCycles = 8, IsIndexedRead = ''Y''\<rparr>] [PyTuple 8 0]
     = Inr ''n8'' \<and>
   get_use_bases_mask [\<lparr>Number = 3, NumCycles = 8, IsIndexedRead = ''Y''\<rparr>] [PyTuple 8 0]
     \<noteq> Inr (''I'' @ str_int 0 @ ''n'' @ str_int (8 - 0))"
  by code_simp

text \<open>
  Claim C1, as the code has it. Take an indexed read of C cycles whose assigned index
  length is L (the component of the pair at position \<^verbatim>\<open>number-2\<close>; it is never
  negative). Whatever the dictionary \<^verbatim>\<open>mask_elements\<close> holds when the loop reaches the
  read, the loop body stores under the read's number the token \<open>I<L>\<close> for C = L and
  \<open>I<L>n<C-L>\<close> for C > L when L > 0, and \<open>n<C>\<close> for C > 0 and the empty token
  for C = 0 when L = 0; for C < L it is fatal (\<^verbatim>\<open>sys.exit()\<close>) and nothing is clamped.
  In any run that contains the read, with any reads before and after it: when C < L the
  derivation fails, with \<^verbatim>\<open>sys.exit()\<close> unless an earlier read has already failed; and
  when the derivation returns a mask, the mask is the comma-joined tokens of the final
  dictionary in ascending read number, where the read's number holds that token (no
  later read having the same number). The run made of the read alone returns the token.
\<close>

theorem indexed_read_token:
  assumes "IsIndexedRead r = ''Y''" and "subscript il (Number r - 2) = Inr L"
  shows "(0 < L \<and> NumCycles r = L \<longrightarrow>
            mask_step index_token il m r = Inr (AList.update (Number r) (''I'' @ str_int L) m) \<and>
            get_use_bases_mask [r] [il] = Inr (''I'' @ str_int L)) \<and>
         (0 < L \<and> L < NumCycles r \<longrightarrow>
            mask_step index_token il m r =
              Inr (AList.update (Number r)
                     (''I'' @ str_int L @ ''n'' @ str_int (NumCycles r - L)) m) \<and>
            get_use_bases_mask [r] [il] =
              Inr (''I'' @ str_int L @ ''n'' @ str_int (NumCycles r - L))) \<and>
         (L = 0 \<and> 0 < NumCycles r \<longrightarrow>
            mask_step index_token il m r =
              Inr (AList.update (Number r) (''n'' @ str_int (NumCycles r)) m) \<and>
            get_use_bases_mask [r] [il] = Inr (''n'' @ str_int (NumCycles r))) \<and>
         (L = 0 \<and> NumCycles r = 0 \<longrightarrow>
            mask_step index_token il m r = Inr (AList.update (Number r) [] m) \<and>
            get_use_bases_mask [r] [il] = Inr []) \<and>
         (NumCycles r < L \<longrightarrow>
            mask_step index_token il m r = Inl SystemExit \<and>
            get_use_bases_mask [r] [il] = Inl SystemExit) \<and>
         0 \<le> L \<and>
         (\<forall>ill pre post.
            unique_index_lengths ill = Inr il \<and> NumCycles r < L \<longrightarrow>
              (\<exists>e. get_use_bases_mask (pre @ r # post) ill = Inl e) \<and>
              (\<forall>m1. mask_loop index_token il [] pre = Inr m1 \<longrightarrow>
                 get_use_bases_mask (pre @ r # post) ill = Inl SystemExit)) \<and>
         (\<forall>ill pre post mask_text.
            unique_index_lengths ill = Inr il \<and>
            get_use_bases_mask (pre @ r # post) ill = Inr mask_text \<and>
            Number r \<notin> Number ` set post \<longrightarrow>
              (\<exists>me. mask_loop index_token il [] (pre @ r # post) = Inr me \<and>
                 mask_text = join '','' (map snd (sort_key fst me)) \<and>
                 map_of me (Number r) =
                   Some ((if 0 < L then ''I'' @ str_int L else []) @
                         (if L < NumCycles r then ''n'' @ str_int (NumCycles r - L) else []))))"
proof (intro conjI allI impI)
  show "0 \<le> L" using assms(2) by (rule subscript_nonneg)
next
  fix ill pre post
  assume h: "unique_index_lengths ill = Inr il \<and> NumCycles r < L"
  show "\<exists>e. get_use_bases_mask (pre @ r # post) ill = Inl e"
    using short_indexed_read_in_run [OF assms, of ill pre post] h by blast
  fix m1
  assume "mask_loop index_token il [] pre = Inr m1"
  then show "get_use_bases_mask (pre @ r # post) ill = Inl SystemExit"
    using short_indexed_read_in_run [OF assms, of ill pre post] h by blast
next
  fix ill pre post mask_text
  assume h: "unique_index_lengths ill = Inr il \<and>
            get_use_bases_mask (pre @ r # post) ill = Inr mask_text \<and>
            Number r \<notin> Number ` set post"
  show "\<exists>me. mask_loop index_token il [] (pre @ r # post) = Inr me \<and>
                 mask_text = join '','' (map snd (sort_key fst me)) \<and>
                 map_of me (Number r) =
                   Some ((if 0 < L then ''I'' @ str_int L else []) @
                         (if L < NumCycles r then ''n'' @ str_int (NumCycles r - L) else []))"
    using indexed_read_in_run [OF assms, of ill pre post mask_text] h by blast
qed (simp_all add: single_indexed_read_any [OF assms] mask_step_indexed [OF assms] index_token_def)


theorem indexed_read_token_witness:
  "IsIndexedRead \<lparr>Number = 2, NumCycles = 10, IsIndexedRead = ''Y''\<rparr> = ''Y'' \<and>
   subscript (PyTuple 8 0) (Number \<lparr>Number = 2, NumCycles = 10, IsIndexedRead = ''Y''\<rparr> - 2)
     = Inr 8 \<and>
   mask_step index_token (PyTuple 8 0) [(1, ''y151'')]
       \<lparr>Number = 2, NumCycles = 10, IsIndexedRead = ''Y''\<rparr>
     = Inr [(1, ''y151''), (2, ''I8n2'')] \<and>
   get_use_bases_mask [\<lparr>Number = 2, NumCycles = 10, IsIndexedRead = ''Y''\<rparr>] [PyTuple 8 0]
     = Inr ''I8n2'' \<and>
   get_use_bases_mask [\<lparr>Number = 2, NumCycles = 8, IsIndexedRead = ''Y''\<rparr>] [PyTuple 8 0]
     = Inr ''I8'' \<and>
   get_use_bases_mask [\<lparr>Number = 2, NumCycles = 6, IsIndexedRead = ''Y''\<rparr>] [PyTuple 8 0]
     = Inl SystemExit \<and>
   get_use_bases_mask [\<lparr>Number = 3, NumCycles = 8, IsIndexedRead = ''Y''\<rparr>] [PyTuple 8 0]
     = Inr ''n8'' \<and>
   unique_index_lengths [PyTuple 8 0, PyTuple 8 0] = Inr (PyTuple 8 0) \<and>
   get_use_bases_mask
       [\<lparr>Number = 1, NumCycles = 151, IsIndexedRead = ''N''\<rparr>,
        \<lparr>Number = 2, NumCycles = 6, IsIndexedRead = ''Y''\<rparr>,
        \<lparr>Number = 3, NumCycles = 151, IsIndexedRead = ''N''\<rparr>] [PyTuple 8 0, PyTuple 8 0]
     = Inl SystemExit \<and>
   get_use_bases_mask
       [\<lparr>Number = 1, NumCycles = 151, IsIndexedRead = ''N''\<rparr>,
        \<lparr>Number = 2, NumCycles = 10, IsIndexedRead = ''Y''\<rparr>,
        \<lparr>Number = 3, NumCycles = 151, IsIndexedRead = ''N''\<rparr>] [PyTuple 8 0, PyTuple 8 0]
     = Inr ''y151,I8n2,y151''"
proof -
  have s8: "str_int 8 = ''8''" and s2: "str_int 2 = ''2''" by code_simp+
  have u: "unique_index_lengths [PyTuple 8 0, PyTuple 8 0] = Inr (PyTuple 8 0)" by code_simp
  have pre: "mask_loop index_token (PyTuple 8 0) []
               [\<lparr>Number = 1, NumCycles = 151, IsIndexedRead = ''N''\<rparr>] = Inr [(1, ''y151'')]"
    by code_simp
  have full: "get_use_bases_mask
       [\<lparr>Number = 1, NumCycles = 151, IsIndexedRead = ''N''\<rparr>,
        \<lparr>Number = 2, NumCycles = 10, IsIndexedRead = ''Y''\<rparr>,
        \<lparr>Number = 3, NumCycles = 151, IsIndexedRead = ''N''\<rparr>] [PyTuple 8 0, PyTuple 8 0]
     = Inr ''y151,I8n2,y151''"
    by code_simp
  have st: "mask_step index_token (PyTuple 8 0) [(1, ''y151'')]
              \<lparr>Number = 2, NumCycles = 10, IsIndexedRead = ''Y''\<rparr>
            = Inr [(1, ''y151''), (2, ''I8n2'')]"
    using indexed_read_token [where r = "\<lparr>Number = 2, NumCycles = 10, IsIndexedRead = ''Y''\<rparr>"
        and il = "PyTuple 8 0" and L = 8 and m = "[(1, ''y151'')]"] s8 s2
    by simp
  have a: "get_use_bases_mask [\<lparr>Number = 2, NumCycles = 10, IsIndexedRead = ''Y''\<rparr>]
             [PyTuple 8 0] = Inr ''I8n2''"
    using indexed_read_token [where r = "\<lparr>Number = 2, NumCycles = 10, IsIndexedRead = ''Y''\<rparr>"
        and il = "PyTuple 8 0" and L = 8 and m = "[]"] s8 s2
    by simp
  have b: "get_use_bases_mask [\<lparr>Number = 2, NumCycles = 8, IsIndexedRead = ''Y''\<rparr>]
             [PyTuple 8 0] = Inr ''I8''"
    using indexed_read_token [where r = "\<lparr>Number = 2, NumCycles = 8, IsIndexedRead = ''Y''\<rparr>"
        and il = "PyTuple 8 0" and L = 8 and m = "[]"] s8
    by simp
  have t6: "(\<forall>ill pre post.
            unique_index_lengths ill = Inr (PyTuple 8 0) \<longrightarrow>
              (\<forall>m1. mask_loop index_token (PyTuple 8 0) [] pre = Inr m1 \<longrightarrow>
                 get_use_bases_mask
                   (pre @ \<lparr>Number = 2, NumCycles = 6, IsIndexedRead = ''Y''\<rparr> # post) ill
                 = Inl SystemExit)) \<and>
            get_use_bases_mask [\<lparr>Number = 2, NumCycles = 6, IsIndexedRead = ''Y''\<rparr>]
              [PyTuple 8 0] = Inl SystemExit"
    using indexed_read_token [where r = "\<lparr>Number = 2, NumCycles = 6, IsIndexedRead = ''Y''\<rparr>"
        and il = "PyTuple 8 0" and L = 8 and m = "[]"]
    by simp
  have c: "get_use_bases_mask [\<lparr>Number = 2, NumCycles = 6, IsIndexedRead = ''Y''\<rparr>]
             [PyTuple 8 0] = Inl SystemExit"
    using t6 by simp
  have e: "get_use_bases_mask
       ([\<lparr>Number = 1, NumCycles = 151, IsIndexedRead = ''N''\<rparr>] @
        \<lparr>Number = 2, NumCycles = 6, IsIndexedRead = ''Y''\<rparr> #
        [\<lparr>Number = 3, NumCycles = 151, IsIndexedRead = ''N''\<rparr>]) [PyTuple 8 0, PyTuple 8 0]
     = Inl SystemExit"
    using t6 u pre by blast
  have d: "get_use_bases_mask [\<lparr>Number = 3, NumCycles = 8, IsIndexedRead = ''Y''\<rparr>]
             [PyTuple 8 0] = Inr ''n8''"
    using indexed_read_token [where r = "\<lparr>Number = 3, NumCycles = 8, IsIndexedRead = ''Y''\<rparr>"
        and il = "PyTuple 8 0" and L = 0 and m = "[]"] s8
    by simp
  show ?thesis using st a b c d e u full by simp
qed

section \<open>The two variants of the mask derivation\<close>

lemma tokens_agree: "0 < L \<Longrightarrow> index_token C L = by_lane_index_token C L"
  by (simp add: index_token_def by_lane_index_token_def)

lemma mask_step_agree:
  assumes "IsIndexedRead r = ''Y'' \<longrightarrow> (\<forall>L. subscript il (Number r - 2) = Inr L \<longrightarrow> 0 < L)"
  shows "mask_step index_token il m r = mask_step by_lane_index_token il m r"
  using assms by (auto simp: mask_step_def tokens_agree split: sum.splits)

lemma mask_loop_agree:
  assumes "\<forall>r\<in>set reads. IsIndexedRead r = ''Y'' \<longrightarrow>
             (\<forall>L. subscript il (Number r - 2) = Inr L \<longrightarrow> 0 < L)"
  shows "mask_loop index_token il m reads = mask_loop by_lane_index_token il m reads"
  using assms
proof (induction reads arbitrary: m)
  case Nil
  show ?case by simp
next
  case (Cons r rs)
  have s: "mask_step index_token il m r = mask_step by_lane_index_token il m r"
    using Cons.prems by (intro mask_step_agree) simp
  have rest: "\<forall>r\<in>set rs. IsIndexedRead r = ''Y'' \<longrightarrow>
             (\<forall>L. subscript il (Number r - 2) = Inr L \<longrightarrow> 0 < L)"
    using Cons.prems by simp
  show ?case using s Cons.IH [OF rest] by (simp split: sum.splits)
qed

text \<open>
  Claim C10. The claim is that \<^verbatim>\<open>scgpm_bcl2fastq\<close> and \<^verbatim>\<open>bcl2fastq2_by_lane\<close> derive the
  same mask, also for an indexed read whose assigned index length is 0. For the reads
  1 (151), 2 (index, 8), 3 (index, 8), 4 (151) and the pair \<open>(8, 0)\<close> the first gives
  \<open>y151,I8,n8,y151\<close> and the second \<open>y151,I8,I0n8,y151\<close>.
\<close>

theorem variants_differ_counterexample:
  "get_use_bases_mask
     [\<lparr>Number = 1, NumCycles = 151, IsIndexedRead = ''N''\<rparr>,
      \<lparr>Number = 2, NumCycles = 8, IsIndexedRead = ''Y''\<rparr>,
      \<lparr>Number = 3, NumCycles = 8, IsIndexedRead = ''Y''\<rparr>,
      \<lparr>Number = 4, NumCycles = 151, IsIndexedRead = ''N''\<rparr>] [PyTuple 8 0]
     = Inr ''y151,I8,n8,y151'' \<and>
   by_lane_get_use_bases_mask
     [\<lparr>Number = 1, NumCycles = 151, IsIndexedRead = ''N''\<rparr>,
      \<lparr>Number = 2, NumCycles = 8, IsIndexedRead = ''Y''\<rparr>,
      \<lparr>Number = 3, NumCycles = 8, IsIndexedRead = ''Y''\<rparr>,
      \<lparr>Number = 4, NumCycles = 151, IsIndexedRead = ''N''\<rparr>] [PyTuple 8 0]
     = Inr ''y151,I8,I0n8,y151'' \<and>
   get_use_bases_mask
     [\<lparr>Number = 1, NumCycles = 151, IsIndexedRead = ''N''\<rparr>,
      \<lparr>Number = 2, NumCycles = 8, IsIndexedRead = ''Y''\<rparr>,
      \<lparr>Number = 3, NumCycles = 8, IsIndexedRead = ''Y''\<rparr>,
      \<lparr>Number = 4, NumCycles = 151, IsIndexedRead = ''N''\<rparr>] [PyTuple 8 0]
   \<noteq> by_lane_get_use_bases_mask
     [\<lparr>Number = 1, NumCycles = 151, IsIndexedRead = ''N''\<rparr>,
      \<lparr>Number = 2, NumCycles = 8, IsIndexedRead = ''Y''\<rparr>,
      \<lparr>Number = 3, NumCycles = 8, IsIndexedRead = ''Y''\<rparr>,
      \<lparr>Number = 4, NumCycles = 151, IsIndexedRead = ''N''\<rparr>] [PyTuple 8 0]"
  by code_simp

text \<open>
  Claim C10, as the code has it. The two variants return the same result, mask or
  failure, for every run geometry and every list of index lengths in which each indexed
  read is assigned a positive index length.
\<close>

theorem variants_agree_on_positive_lengths:
  assumes "\<forall>x\<in>set index_lengths_list. \<forall>r\<in>set run_info. IsIndexedRead r = ''Y'' \<longrightarrow>
             (\<forall>L. subscript x (Number r - 2) = Inr L \<longrightarrow> 0 < L)"
  shows "get_use_bases_mask run_info index_lengths_list =
         by_lane_get_use_bases_mask run_info index_lengths_list"
proof (cases "unique_index_lengths index_lengths_list")
  case (Inl e)
  then show ?thesis
    by (simp add: get_use_bases_mask_def by_lane_get_use_bases_mask_def use_bases_mask_with_def)
next
  case (Inr il)
  then have "il \<in> set index_lengths_list" by (rule unique_index_lengths_member)
  then have "\<forall>r\<in>set run_info. IsIndexedRead r = ''Y'' \<longrightarrow>
             (\<forall>L. subscript il (Number r - 2) = Inr L \<longrightarrow> 0 < L)"
    using assms by blast
  then have "mask_loop index_token il [] run_info = mask_loop by_lane_index_token il [] run_info"
    by (rule mask_loop_agree)
  then show ?thesis using Inr
    by (simp add: get_use_bases_mask_def by_lane_get_use_bases_mask_def use_bases_mask_with_def)
qed

theorem variants_agree_on_positive_lengths_witness:
  "subscript (PyTuple 8 8) (2 - 2) = Inr 8 \<and> subscript (PyTuple 8 8) (3 - 2) = Inr 8 \<and>
   get_use_bases_mask
       [\<lparr>Number = 1, NumCycles = 151, IsIndexedRead = ''N''\<rparr>,
        \<lparr>Number = 2, NumCycles = 8, IsIndexedRead = ''Y''\<rparr>,
        \<lparr>Number = 3, NumCycles = 10, IsIndexedRead = ''Y''\<rparr>,
        \<lparr>Number = 4, NumCycles = 151, IsIndexedRead = ''N''\<rparr>] [PyTuple 8 8] =
     Inr ''y151,I8,I8n2,y151'' \<and>
   by_lane_get_use_bases_mask
       [\<lparr>Number = 1, NumCycles = 151, IsIndexedRead = ''N''\<rparr>,
        \<lparr>Number = 2, NumCycles = 8, IsIndexedRead = ''Y''\<rparr>,
        \<lparr>Number = 3, NumCycles = 10, IsIndexedRead = ''Y''\<rparr>,
        \<lparr>Number = 4, NumCycles = 151, IsIndexedRead = ''N''\<rparr>] [PyTuple 8 8] =
     Inr ''y151,I8,I8n2,y151''"
proof -
  let ?g = "[\<lparr>Number = 1, NumCycles = 151, IsIndexedRead = ''N''\<rparr>,
        \<lparr>Number = 2, NumCycles = 8, IsIndexedRead = ''Y''\<rparr>,
        \<lparr>Number = 3, NumCycles = 10, IsIndexedRead = ''Y''\<rparr>,
        \<lparr>Number = 4, NumCycles = 151, IsIndexedRead = ''N''\<rparr>]"
  have h: "\<forall>x\<in>set [PyTuple 8 8]. \<forall>r\<in>set ?g.
      IsIndexedRead r = ''Y'' \<longrightarrow> (\<forall>L. subscript x (Number r - 2) = Inr L \<longrightarrow> 0 < L)"
    by auto
  have e: "get_use_bases_mask ?g [PyTuple 8 8] = Inr ''y151,I8,I8n2,y151''"
    by code_simp
  show ?thesis
    using variants_agree_on_positive_lengths [OF h] e by simp
qed

end
